theory Spec2Isabelle
  imports Complex_Main "HOL-Library.Word"
begin

unbundle bit_operations_syntax

section \<open>JavaScript strings\<close>

text \<open>
  A JavaScript string is a sequence of 16-bit code units: \<open>charCodeAt\<close> reads one,
  \<open>length\<close> counts them, \<open>+\<close> concatenates. Literals of the source are ASCII apart
  from the cedi sign U+20B5 of the prize labels, which is the single code unit 0x20B5.
\<close>

type_synonym code_unit = "16 word"
type_synonym jsstring = "code_unit list"

definition js :: "string \<Rightarrow> jsstring" where
  "js s = map of_char s"

text \<open>\<open>s.substring(a, b)\<close> for \<open>0 \<le> a \<le> b\<close>; indices past the end are clamped.\<close>

definition substring :: "jsstring \<Rightarrow> nat \<Rightarrow> nat \<Rightarrow> jsstring" where
  "substring s a b = take (b - a) (drop a s)"

section \<open>Regular expressions of the source\<close>

text \<open>
  The three patterns of the source are sequences of literals and of counted character
  classes, so a pattern is a list of matchers, each consuming a prefix of the input and
  returning the rest (\<open>None\<close>: no match). \<open>\\d\<close> is \<open>[0-9]\<close> in JavaScript.
\<close>

definition is_digit :: "code_unit \<Rightarrow> bool" where
  "is_digit c = (48 \<le> c \<and> c \<le> 57)"

definition is_upper :: "code_unit \<Rightarrow> bool" where
  "is_upper c = (65 \<le> c \<and> c \<le> 90)"

definition is_upper_alnum :: "code_unit \<Rightarrow> bool" where
  "is_upper_alnum c = (is_upper c \<or> is_digit c)"

text \<open>
  Case-insensitive matching without the \<open>u\<close> flag compares canonical forms: the upper
  case of a code unit, except that a code unit of 128 or more is never mapped below 128.
  Every character of the patterns is ASCII, so an input code unit matches a pattern
  character exactly when their ASCII upper cases agree.
\<close>

definition canonicalize :: "code_unit \<Rightarrow> code_unit" where
  "canonicalize c = (if 97 \<le> c \<and> c \<le> 122 then c - 32 else c)"

fun lit :: "jsstring \<Rightarrow> jsstring \<Rightarrow> jsstring option" where
  "lit [] s = Some s"
| "lit (p # ps) [] = None"
| "lit (p # ps) (c # s) = (if c = p then lit ps s else None)"

fun lit_ci :: "jsstring \<Rightarrow> jsstring \<Rightarrow> jsstring option" where
  "lit_ci [] s = Some s"
| "lit_ci (p # ps) [] = None"
| "lit_ci (p # ps) (c # s) =
     (if canonicalize c = canonicalize p then lit_ci ps s else None)"

fun times :: "(code_unit \<Rightarrow> bool) \<Rightarrow> nat \<Rightarrow> jsstring \<Rightarrow> jsstring option" where
  "times P 0 s = Some s"
| "times P (Suc n) [] = None"
| "times P (Suc n) (c # s) = (if P c then times P n s else None)"

definition match_seq :: "(jsstring \<Rightarrow> jsstring option) list \<Rightarrow> jsstring \<Rightarrow> jsstring option" where
  "match_seq ms s = fold (\<lambda>m r. Option.bind r m) ms (Some s)"

text \<open>
  \<^verbatim>\<open>/^GRA-VAT-\d{4}-[A-Z0-9]{4}-[A-Z0-9]{4}-[A-Z0-9]{4}$/\<close>: anchored at both ends
  (\<open>$\<close> without the \<open>m\<close> flag is the end of the input).
\<close>

definition v1Pattern :: "jsstring \<Rightarrow> bool" where
  "v1Pattern s =
     (match_seq
        [lit (js ''GRA-VAT-''), times is_digit 4,
         lit (js ''-''), times is_upper_alnum 4,
         lit (js ''-''), times is_upper_alnum 4,
         lit (js ''-''), times is_upper_alnum 4] s = Some [])"

text \<open>
  \<^verbatim>\<open>/^https?:\/\/(evat\.gra\.gov\.gh|vsdc\.vat-gh\.com)\/verify\?/i\<close>: anchored at the
  start only. The optional \<open>s\<close> and the alternation of hosts give four literal
  prefixes.
\<close>

definition urlPrefixes :: "jsstring list" where
  "urlPrefixes =
     [js (scheme @ ''://'' @ host @ ''/verify?'').
        scheme \<leftarrow> [''https'', ''http''],
        host \<leftarrow> [''evat.gra.gov.gh'', ''vsdc.vat-gh.com'']]"

definition urlPattern :: "jsstring \<Rightarrow> bool" where
  "urlPattern s = list_ex (\<lambda>p. lit_ci p s \<noteq> None) urlPrefixes"

section \<open>Configuration (config.js)\<close>

text \<open>
  \<open>PRIZES\<close> is the list \<open>Object.entries(CONFIG.PRIZES)\<close>: the labels of the source are
  not integer-like, so the entries come in insertion order. The shares are whole
  numbers, on which the double arithmetic of the source is exact.
\<close>

record config =
  WIN_PERCENTAGE :: real
  PRIZES :: "(jsstring \<times> nat) list"
  MAX_SCANS_PER_HOUR :: nat

definition cedi :: jsstring where
  "cedi = js ''GH'' @ [0x20B5]"

definition CONFIG :: config where
  "CONFIG = \<lparr> WIN_PERCENTAGE = 10,
              PRIZES = [(cedi @ js ''5 Airtime'', 70),
                        (cedi @ js ''10 Airtime'', 25),
                        (cedi @ js ''50 Airtime'', 5)],
              MAX_SCANS_PER_HOUR = 10 \<rparr>"

definition QR_PATTERN :: "jsstring \<Rightarrow> bool" where
  "QR_PATTERN s = v1Pattern s"

section \<open>QRParser\<close>

datatype js_error = TypeError

datatype version = V1 | V2 | Unknown

text \<open>
  \<open>parseV2URL\<close> runs \<open>new URL(urlString)\<close> and reads \<open>url.searchParams\<close>, both of the
  platform. What they do on the string is an input of the model: \<open>None\<close> when a statement
  of the \<open>try\<close> block throws, otherwise the decoded (name, value) pairs of the query in
  their order; \<open>params.get(name)\<close> is the first value of that name, or null.
\<close>

type_synonym url_outcome = "(jsstring \<times> jsstring) list option"

record v2data =
  sdcId :: "jsstring option"
  rcptNum :: "jsstring option"
  internalData :: "jsstring option"
  ts :: "jsstring option"
  sig :: "jsstring option"
  timestampFormatted :: jsstring

definition formatTimestamp :: "jsstring option \<Rightarrow> jsstring" where
  "formatTimestamp t =
     (case t of
        None \<Rightarrow> js ''Unknown''
      | Some s \<Rightarrow>
          if s = [] \<or> length s < 14 then js ''Unknown''
          else substring s 0 4 @ js ''/'' @ substring s 4 6 @ js ''/'' @ substring s 6 8
               @ js '' '' @ substring s 8 10 @ js '':'' @ substring s 10 12 @ js '':''
               @ substring s 12 14)"

definition parseV2URL :: "url_outcome \<Rightarrow> v2data option" where
  "parseV2URL url =
     (case url of
        None \<Rightarrow> None
      | Some params \<Rightarrow>
          Some \<lparr> sdcId = map_of params (js ''sdc''),
                 rcptNum = map_of params (js ''rcpt''),
                 internalData = map_of params (js ''data''),
                 ts = map_of params (js ''ts''),
                 sig = map_of params (js ''sig''),
                 timestampFormatted = formatTimestamp (map_of params (js ''ts'')) \<rparr>)"

definition isV2Format :: "jsstring \<Rightarrow> bool" where
  "isV2Format content = urlPattern content"

definition isV1Format :: "jsstring \<Rightarrow> bool" where
  "isV1Format content = v1Pattern content"

text \<open>The \<open>data\<close> field of a parse result: null, the object of \<open>parseV2URL\<close>, or \<open>{code}\<close>.\<close>

datatype parsed_data = Null | V2Data v2data | V1Data jsstring

record parsed =
  version :: version
  valid :: bool
  data :: parsed_data
  raw :: jsstring
  error :: "jsstring option"

definition parse :: "url_outcome \<Rightarrow> jsstring \<Rightarrow> parsed" where
  "parse url qrContent =
     (if isV2Format qrContent then
        \<lparr> version = V2, valid = True,
          data = (case parseV2URL url of None \<Rightarrow> Null | Some d \<Rightarrow> V2Data d),
          raw = qrContent, error = None \<rparr>
      else if isV1Format qrContent then
        \<lparr> version = V1, valid = True, data = V1Data qrContent,
          raw = qrContent, error = None \<rparr>
      else
        \<lparr> version = Unknown, valid = False, data = Null,
          raw = qrContent, error = Some (js ''Unrecognized QR code format'') \<rparr>)"

text \<open>
  \<open>getUniqueId\<close> reads a property of \<open>parsedData.data\<close>: a TypeError when \<open>data\<close> is null.
  \<open>Inr None\<close> is a result that is null or undefined, \<open>Inr (Some s)\<close> the string \<open>s\<close>.
\<close>

definition getUniqueId :: "parsed \<Rightarrow> js_error + jsstring option" where
  "getUniqueId parsedData =
     (if version parsedData = V2 then
        (case data parsedData of
           Null \<Rightarrow> Inl TypeError
         | V2Data d \<Rightarrow> Inr (rcptNum d)
         | V1Data c \<Rightarrow> Inr None)
      else if version parsedData = V1 then
        (case data parsedData of
           Null \<Rightarrow> Inl TypeError
         | V2Data d \<Rightarrow> Inr None
         | V1Data c \<Rightarrow> Inr (Some c))
      else Inr None)"

section \<open>The API module: helpers\<close>

text \<open>
  The names of the API module's helpers are the source's, without the leading
  underscore.
\<close>

subsection \<open>Numbers to strings\<close>

definition digitChar :: "nat \<Rightarrow> code_unit" where
  "digitChar d = js ''0123456789abcdef'' ! d"

text \<open>\<open>n.toString(16)\<close> and \<open>String(n)\<close> for an integer \<open>n \<ge> 0\<close>.\<close>

fun toString16 :: "nat \<Rightarrow> jsstring" where
  "toString16 n = (if n < 16 then [digitChar n] else toString16 (n div 16) @ [digitChar (n mod 16)])"

fun toString10 :: "nat \<Rightarrow> jsstring" where
  "toString10 n = (if n < 10 then [digitChar n] else toString10 (n div 10) @ [digitChar (n mod 10)])"

declare toString16.simps [simp del] toString10.simps [simp del]

subsection \<open>generateHash\<close>

text \<open>
  The loop of \<open>_generateHash\<close>. At the head of each round \<open>hash\<close> is a 32-bit integer;
  \<open>hash << 5\<close> wraps to 32 bits, the subtraction and the addition are exact in doubles
  (all values are below \<open>2^33\<close> in magnitude), and \<open>hash & hash\<close> wraps the sum to 32 bits
  again. The round is therefore this arithmetic on 32-bit words.
\<close>

fun hashLoop :: "32 word \<Rightarrow> jsstring \<Rightarrow> 32 word" where
  "hashLoop hash [] = hash"
| "hashLoop hash (char # rest) = hashLoop ((push_bit 5 hash - hash) + ucast char) rest"

text \<open>
  \<open>Math.abs(hash)\<close> is the magnitude of the signed reading, at most \<open>2^31\<close>; its
  hexadecimal form has at most 8 digits, so the count of \<open>'0'.repeat\<close> is never negative.
\<close>

definition generateHash :: "jsstring \<Rightarrow> jsstring" where
  "generateHash input =
     (let hash = hashLoop 0 input;
          hex = toString16 (nat \<bar>sint hash\<bar>);
          padding = replicate (64 - length hex) (48 :: code_unit)
      in substring (padding @ hex) 0 64)"

text \<open>
  The commitment of \<open>_demoScan\<close>:
  \<^verbatim>\<open>this._generateHash(qrCode + phone + timestamp + randomSeed)\<close>.
\<close>

definition commit :: "jsstring \<Rightarrow> jsstring \<Rightarrow> jsstring \<Rightarrow> jsstring \<Rightarrow> jsstring" where
  "commit receiptUniqueId participantId timestamp randomSeed =
     generateHash (receiptUniqueId @ participantId @ timestamp @ randomSeed)"

subsection \<open>determinePrize\<close>

text \<open>
  The loop over \<open>Object.entries(CONFIG.PRIZES)\<close>: \<open>random\<close> is the value of
  \<open>Math.random() * 100\<close>, a parameter of the model. \<open>None\<close>: the loop ended without
  returning.
\<close>

fun prizeLoop :: "(jsstring \<times> nat) list \<Rightarrow> nat \<Rightarrow> real \<Rightarrow> jsstring option" where
  "prizeLoop [] cumulative random = None"
| "prizeLoop ((prize, percentage) # rest) cumulative random =
     (if random < real (cumulative + percentage) then Some prize
      else prizeLoop rest (cumulative + percentage) random)"

text \<open>
  After the loop, \<open>Object.keys(CONFIG.PRIZES)[0]\<close>: undefined (\<open>None\<close>) for an empty
  table.
\<close>

definition determinePrize :: "config \<Rightarrow> real \<Rightarrow> jsstring option" where
  "determinePrize cfg random =
     (case prizeLoop (PRIZES cfg) 0 random of
        Some prize \<Rightarrow> Some prize
      | None \<Rightarrow> (case PRIZES cfg of [] \<Rightarrow> None | (prize, percentage) # rest \<Rightarrow> Some prize))"

subsection \<open>maskPhone and getBadge\<close>

definition maskPhone :: "jsstring \<Rightarrow> jsstring" where
  "maskPhone phone =
     (if phone = [] \<or> length phone < 7 then phone
      else substring phone 0 3 @ js ''****'' @ drop (length phone - 3) phone)"

datatype badge = Gold | Silver | Bronze

definition getBadge :: "nat \<Rightarrow> badge option" where
  "getBadge scans =
     (if scans \<ge> 50 then Some Gold
      else if scans \<ge> 25 then Some Silver
      else if scans \<ge> 10 then Some Bronze
      else None)"

section \<open>The store (localStorage)\<close>

text \<open>
  A timestamp of the source is the ISO string of \<open>new Date().toISOString()\<close>; the rate
  limit reads it back with \<open>new Date(scan.timestamp)\<close>. The model carries the string
  together with the instant the platform reads from it, in milliseconds since the epoch.
\<close>

record timestamp =
  iso :: jsstring
  millis :: int

datatype outcome = WIN | LOSE

text \<open>An element of the scan history, as \<open>_storeScan\<close> pushes it.\<close>

record history_entry =
  h_qrCode :: jsstring
  h_phone :: jsstring
  h_timestamp :: timestamp
  h_result :: outcome
  h_prize :: "jsstring option"

record audit_entry =
  a_timestamp :: timestamp
  a_phone :: jsstring
  a_qrCode :: jsstring
  a_prize :: "jsstring option"
  a_transactionHash :: jsstring
  a_randomSeed :: jsstring

record leaderboard_entry =
  lb_phone :: jsstring
  lb_scans :: nat
  lb_wins :: nat

text \<open>
  The four keys the API module writes: \<open>evat_scan_history\<close>, \<open>scanned_codes\<close>,
  \<open>evat_audit_log\<close> and \<open>evat_leaderboard\<close>, each a JSON array (\<open>[]\<close> when absent).
\<close>

record storage =
  scan_history :: "history_entry list"
  scanned_codes :: "jsstring list"
  audit_log :: "audit_entry list"
  leaderboard :: "leaderboard_entry list"

definition emptyStorage :: storage where
  "emptyStorage = \<lparr> scan_history = [], scanned_codes = [], audit_log = [], leaderboard = [] \<rparr>"

text \<open>
  What the platform gives one call of \<open>submitScan\<close>: the clock reading of
  \<open>new Date()\<close>, the later reading of \<open>Date.now()\<close> in \<open>_getRecentScans\<close>, the value of
  \<open>Math.random() * 100\<close> in \<open>_demoScan\<close> and in \<open>_determinePrize\<close>, and the seed
  \<open>Math.random().toString(36).substring(2, 15)\<close>.
\<close>

record env =
  clock :: timestamp
  now :: int
  draw :: real
  prize_draw :: real
  seed :: jsstring

subsection \<open>Reading the store\<close>

text \<open>
  \<open>_getScanHistory\<close> parses the stored array: its elements are objects.
  \<open>Array.prototype.includes\<close> compares with SameValueZero, under which an object is
  never equal to a string.
\<close>

datatype json = JString jsstring | JObject history_entry

definition getScanHistory :: "storage \<Rightarrow> json list" where
  "getScanHistory st = map JObject (scan_history st)"

definition array_includes :: "json list \<Rightarrow> jsstring \<Rightarrow> bool" where
  "array_includes xs x = list_ex (\<lambda>y. case y of JString s \<Rightarrow> s = x | JObject obj \<Rightarrow> False) xs"

definition getRecentScans :: "env \<Rightarrow> storage \<Rightarrow> jsstring \<Rightarrow> nat" where
  "getRecentScans e st phone =
     (let oneHourAgo = now e - 60 * 60 * 1000
      in length (filter (\<lambda>scan. h_phone scan = phone \<and> millis (h_timestamp scan) > oneHourAgo)
                   (scan_history st)))"

record user_stats =
  totalScans :: nat
  totalWins :: nat

definition getUserStats :: "storage \<Rightarrow> jsstring \<Rightarrow> user_stats" where
  "getUserStats st phone =
     (let userScans = filter (\<lambda>scan. h_phone scan = phone) (scan_history st)
      in \<lparr> totalScans = length userScans,
           totalWins = length (filter (\<lambda>scan. h_result scan = WIN) userScans) \<rparr>)"

definition getStoredLeaderboard :: "storage \<Rightarrow> leaderboard_entry list" where
  "getStoredLeaderboard st = leaderboard st"

subsection \<open>Writing the store\<close>

text \<open>
  \<open>leaderboard.find(p)\<close> returns the first element satisfying \<open>p\<close>, by reference:
  assigning to its fields changes that element of the array.
\<close>

fun update_first :: "('a \<Rightarrow> bool) \<Rightarrow> ('a \<Rightarrow> 'a) \<Rightarrow> 'a list \<Rightarrow> 'a list" where
  "update_first P f [] = []"
| "update_first P f (x # xs) = (if P x then f x # xs else x # update_first P f xs)"

definition updateLeaderboard :: "leaderboard_entry list \<Rightarrow> jsstring \<Rightarrow> bool \<Rightarrow> leaderboard_entry list" where
  "updateLeaderboard lb phone isWin =
     (let lb1 = (if find (\<lambda>u. lb_phone u = phone) lb = None
                 then lb @ [\<lparr> lb_phone = phone, lb_scans = 0, lb_wins = 0 \<rparr>] else lb)
      in update_first (\<lambda>u. lb_phone u = phone)
           (\<lambda>user. user\<lparr> lb_scans := lb_scans user + 1,
                          lb_wins := (if isWin then lb_wins user + 1 else lb_wins user) \<rparr>) lb1)"

record scan =
  s_qrCode :: jsstring
  s_phone :: jsstring
  s_timestamp :: timestamp
  s_result :: outcome
  s_prize :: "jsstring option"
  s_transactionHash :: jsstring
  s_randomSeed :: jsstring

definition storeScan :: "storage \<Rightarrow> scan \<Rightarrow> storage" where
  "storeScan st sc =
     \<lparr> scan_history = scan_history st @
         [\<lparr> h_qrCode = s_qrCode sc, h_phone = s_phone sc, h_timestamp = s_timestamp sc,
            h_result = s_result sc, h_prize = s_prize sc \<rparr>],
       scanned_codes = scanned_codes st @ [s_qrCode sc],
       audit_log =
         (if s_result sc = WIN then
            \<lparr> a_timestamp = s_timestamp sc, a_phone = s_phone sc, a_qrCode = s_qrCode sc,
              a_prize = s_prize sc, a_transactionHash = s_transactionHash sc,
              a_randomSeed = s_randomSeed sc \<rparr> # audit_log st
          else audit_log st),
       leaderboard = updateLeaderboard (getStoredLeaderboard st) (s_phone sc) (s_result sc = WIN) \<rparr>"

section \<open>submitScan\<close>

text \<open>
  The \<open>error\<close> strings of a failed scan: \<open>'Invalid QR code format'\<close>,
  \<open>'Duplicate scan'\<close> and \<open>'Rate limited'\<close>. A result with \<open>success: false\<close> carries one
  of them and a message.
\<close>

datatype scan_error = InvalidQRCodeFormat | DuplicateScan | RateLimited

record scan_success =
  r_result :: outcome
  r_prize :: "jsstring option"
  r_transaction_hash :: jsstring
  r_message :: jsstring
  r_total_scans :: nat
  r_total_wins :: nat

datatype scan_result = Failure scan_error jsstring | Success scan_success

text \<open>The apostrophe of the messages, code unit 39.\<close>

definition apostrophe :: jsstring where
  "apostrophe = [39]"

definition demoScan :: "config \<Rightarrow> env \<Rightarrow> storage \<Rightarrow> jsstring \<Rightarrow> jsstring \<Rightarrow> timestamp
    \<Rightarrow> scan_result \<times> storage" where
  "demoScan cfg e st qrCode phone timestamp =
     (if \<not> QR_PATTERN qrCode then
        (Failure InvalidQRCodeFormat
           (js ''This doesn'' @ apostrophe @ js ''t look like a valid GRA VAT receipt QR code.''), st)
      else if array_includes (getScanHistory st) qrCode then
        (Failure DuplicateScan (js ''This receipt has already been scanned!''), st)
      else if getRecentScans e st phone \<ge> MAX_SCANS_PER_HOUR cfg then
        (Failure RateLimited
           (js ''You'' @ apostrophe @ js ''ve reached the limit of ''
            @ toString10 (MAX_SCANS_PER_HOUR cfg) @ js '' scans per hour. Try again later!''), st)
      else
        let random = draw e;
            isWin = (random < WIN_PERCENTAGE cfg);
            prize = (if isWin then determinePrize cfg (prize_draw e) else None);
            randomSeed = seed e;
            transactionHash = commit qrCode phone (iso timestamp) randomSeed;
            st' = storeScan st
                    \<lparr> s_qrCode = qrCode, s_phone = phone, s_timestamp = timestamp,
                      s_result = (if isWin then WIN else LOSE), s_prize = prize,
                      s_transactionHash = transactionHash, s_randomSeed = randomSeed \<rparr>;
            stats = getUserStats st' phone
        in (Success
              \<lparr> r_result = (if isWin then WIN else LOSE),
                r_prize = prize,
                r_transaction_hash = transactionHash,
                r_message =
                  (if isWin then
                     js ''Congratulations! You won ''
                     @ (case prize of None \<Rightarrow> js ''undefined'' | Some p \<Rightarrow> p) @ js ''!''
                   else js ''No win this time - keep scanning for more chances!''),
                r_total_scans = totalScans stats,
                r_total_wins = totalWins stats \<rparr>, st'))"

text \<open>
  \<open>submitScan\<close> with \<open>CONFIG.DEMO_MODE\<close> set, as config.js sets it (and its fallback
  when the request to the backend fails): the demo scan at the clock's reading.
\<close>

definition submitScan :: "config \<Rightarrow> env \<Rightarrow> storage \<Rightarrow> jsstring \<Rightarrow> jsstring \<Rightarrow> scan_result \<times> storage" where
  "submitScan cfg e st qrCode phone = demoScan cfg e st qrCode phone (clock e)"

section \<open>The demo leaderboard\<close>

definition demoUsers :: "leaderboard_entry list" where
  "demoUsers =
     [\<lparr> lb_phone = js ''0241234567'', lb_scans = 45, lb_wins = 5 \<rparr>,
      \<lparr> lb_phone = js ''0551234567'', lb_scans = 38, lb_wins = 3 \<rparr>,
      \<lparr> lb_phone = js ''0271234567'', lb_scans = 32, lb_wins = 4 \<rparr>,
      \<lparr> lb_phone = js ''0201234567'', lb_scans = 28, lb_wins = 2 \<rparr>,
      \<lparr> lb_phone = js ''0541234567'', lb_scans = 22, lb_wins = 3 \<rparr>]"

text \<open>The body of \<open>demoUsers.forEach\<close>, for one demo user.\<close>

definition addDemoUser :: "leaderboard_entry \<Rightarrow> leaderboard_entry list \<Rightarrow> leaderboard_entry list" where
  "addDemoUser user lb =
     (if find (\<lambda>u. lb_phone u = lb_phone user) lb = None then lb @ [user] else lb)"

text \<open>\<open>findIndex\<close>: the index of the first element satisfying the predicate, or -1.\<close>

fun findIndex :: "('a \<Rightarrow> bool) \<Rightarrow> 'a list \<Rightarrow> int" where
  "findIndex P [] = - 1"
| "findIndex P (x # xs) =
     (if P x then 0 else (let i = findIndex P xs in if i < 0 then - 1 else i + 1))"

record leaderboard_row =
  rank :: nat
  phone_masked :: jsstring
  phone :: jsstring
  scans :: nat
  wins :: nat
  badge :: "badge option"

record leaderboard_result =
  rows :: "leaderboard_row list"
  user_rank :: "int option"
  user_scans :: nat
  user_wins :: nat

text \<open>
  \<open>leaderboard.sort((a, b) => b.scans - a.scans)\<close> is a stable sort by descending scan
  count: \<open>sort_key\<close> on the negated count. The \<open>period\<close> is not read by the source.
\<close>

definition demoLeaderboard :: "storage \<Rightarrow> jsstring \<Rightarrow> jsstring \<Rightarrow> leaderboard_result" where
  "demoLeaderboard st user_phone period =
     (let lb = getStoredLeaderboard st;
          userStats = getUserStats st user_phone;
          lb1 = (if length lb < 5 then fold addDemoUser demoUsers lb else lb);
          lb2 = (case find (\<lambda>u. lb_phone u = user_phone) lb1 of
                   Some existingUser \<Rightarrow>
                     update_first (\<lambda>u. lb_phone u = user_phone)
                       (\<lambda>u. u\<lparr> lb_scans := totalScans userStats, lb_wins := totalWins userStats \<rparr>) lb1
                 | None \<Rightarrow>
                     if totalScans userStats > 0 then
                       lb1 @ [\<lparr> lb_phone = user_phone, lb_scans = totalScans userStats,
                                lb_wins = totalWins userStats \<rparr>]
                     else lb1);
          lb3 = sort_key (\<lambda>u. - int (lb_scans u)) lb2;
          userRank = findIndex (\<lambda>u. lb_phone u = user_phone) lb3 + 1
      in \<lparr> rows =
             map (\<lambda>(index, user).
                    \<lparr> rank = index + 1, phone_masked = maskPhone (lb_phone user),
                      phone = lb_phone user, scans = lb_scans user, wins = lb_wins user,
                      badge = getBadge (lb_scans user) \<rparr>)
               (enumerate 0 (take 10 lb3)),
           user_rank = (if userRank = 0 then None else Some userRank),
           user_scans = totalScans userStats,
           user_wins = totalWins userStats \<rparr>)"

section \<open>The specification's reading of the prize draw\<close>

text \<open>
  The cumulative share of tier \<open>i\<close> of a prize table, and the tier the specification
  selects for a draw \<open>r2\<close>: the first one whose cumulative share exceeds \<open>r2\<close>, and the
  first tier of the table when there is none.
\<close>

definition cumulativeShare :: "(jsstring \<times> nat) list \<Rightarrow> nat \<Rightarrow> nat" where
  "cumulativeShare table i = sum_list (map snd (take (Suc i) table))"

definition specTier :: "(jsstring \<times> nat) list \<Rightarrow> real \<Rightarrow> jsstring option" where
  "specTier table r2 =
     (case filter (\<lambda>i. r2 < real (cumulativeShare table i)) [0 ..< length table] of
        i # others \<Rightarrow> Some (fst (table ! i))
      | [] \<Rightarrow> (case table of [] \<Rightarrow> None | tier # others \<Rightarrow> Some (fst tier)))"

section \<open>The specification's reading of the digest\<close>

text \<open>
  The number a string of hexadecimal digits denotes, a digit counting for its position
  in \<open>0123456789abcdef\<close>; and the polynomial in 31 over the code units of a string,
  in 32-bit arithmetic, the first code unit carrying the highest power.
\<close>

definition hexValue :: "jsstring \<Rightarrow> nat" where
  "hexValue s =
     fold (\<lambda>c v. 16 * v + length (takeWhile (\<lambda>x. x \<noteq> c) (js ''0123456789abcdef''))) s 0"

definition polynomial31 :: "jsstring \<Rightarrow> 32 word" where
  "polynomial31 s =
     sum_list (map (\<lambda>i. ucast (s ! i) * 31 ^ (length s - 1 - i)) [0 ..< length s])"

section \<open>Length and alphabet of the hash\<close>

lemma digitChar_hex: "d < 16 \<Longrightarrow> digitChar d \<in> set (js ''0123456789abcdef'')"
  unfolding digitChar_def by (rule nth_mem) (simp add: js_def)

lemma toString16_hex: "set (toString16 n) \<subseteq> set (js ''0123456789abcdef'')"
proof (induction n rule: toString16.induct)
  case (1 n)
  show ?case
  proof (cases "n < 16")
    case True
    then show ?thesis using digitChar_hex[of n] by (subst toString16.simps) simp
  next
    case False
    have "n mod 16 < 16" by simp
    then have "digitChar (n mod 16) \<in> set (js ''0123456789abcdef'')" by (rule digitChar_hex)
    with False 1 show ?thesis by (subst toString16.simps) simp
  qed
qed

lemma toString16_length: "n < 16 ^ k \<Longrightarrow> 0 < k \<Longrightarrow> length (toString16 n) \<le> k"
proof (induction n arbitrary: k rule: toString16.induct)
  case (1 n)
  show ?case
  proof (cases "n < 16")
    case True
    then show ?thesis using 1 by (subst toString16.simps) simp
  next
    case False
    then obtain k' where k: "k = Suc k'" using 1(3) by (cases k) auto
    with False 1(2) have "0 < k'" by (cases k') auto
    moreover from 1(2) k have "n div 16 < 16 ^ k'"
      by (simp add: less_mult_imp_div_less mult.commute)
    ultimately have "length (toString16 (n div 16)) \<le> k'" using 1(1)[OF False] by simp
    with False k show ?thesis by (subst toString16.simps) simp
  qed
qed

lemma abs_sint_bound: "nat \<bar>sint (w :: 32 word)\<bar> < 16 ^ 8"
proof -
  have "- (2 ^ 31) \<le> sint w" "sint w < 2 ^ 31"
    using sint_ge[of w] sint_lt[of w] by simp_all
  then show ?thesis by simp
qed

lemma generateHash_length: "length (generateHash input) = 64"
proof -
  have "length (toString16 (nat \<bar>sint (hashLoop 0 input)\<bar>)) \<le> 8"
    by (rule toString16_length[OF abs_sint_bound]) simp
  then show ?thesis by (simp add: generateHash_def substring_def Let_def)
qed

lemma generateHash_hex: "set (generateHash input) \<subseteq> set (js ''0123456789abcdef'')"
proof -
  have "(48 :: code_unit) \<in> set (js ''0123456789abcdef'')" by (simp add: js_def)
  then show ?thesis
    using toString16_hex[of "nat \<bar>sint (hashLoop 0 input)\<bar>"]
    by (auto simp: generateHash_def substring_def Let_def dest!: in_set_takeD)
qed

section \<open>When two commitments agree\<close>

text \<open>
  The value of a hexadecimal digit is its position in \<open>0123456789abcdef\<close>; reading the
  digest back as a number gives the magnitude of the hash.
\<close>

lemma digitValue_digitChar:
  "d < 16 \<Longrightarrow> length (takeWhile (\<lambda>x. x \<noteq> digitChar d) (js ''0123456789abcdef'')) = d"
proof -
  assume "d < 16"
  then have "d \<in> set [0 ..< 16]" by simp
  then show ?thesis
    unfolding digitChar_def js_def by (simp add: upt_rec) (elim disjE; simp)
qed

lemma hexValue_toString16:
  "fold (\<lambda>c v. 16 * v + length (takeWhile (\<lambda>x. x \<noteq> c) (js ''0123456789abcdef''))) (toString16 n) 0 = n"
proof (induction n rule: toString16.induct)
  case (1 n)
  show ?case
  proof (cases "n < 16")
    case True
    then show ?thesis by (subst toString16.simps) (simp add: digitValue_digitChar)
  next
    case False
    with 1 show ?thesis by (subst toString16.simps) (simp add: digitValue_digitChar)
  qed
qed

lemma hexValue_padding:
  "fold (\<lambda>c v. 16 * v + length (takeWhile (\<lambda>x. x \<noteq> c) (js ''0123456789abcdef''))) (replicate k 48) 0 = 0"
  by (induction k) (simp_all add: js_def del: fold_replicate)

lemma toString16_length8: "length (toString16 (nat \<bar>sint (w :: 32 word)\<bar>)) \<le> 8"
  by (rule toString16_length[OF abs_sint_bound]) simp

lemma hexValue_generateHash:
  "fold (\<lambda>c v. 16 * v + length (takeWhile (\<lambda>x. x \<noteq> c) (js ''0123456789abcdef''))) (generateHash input) 0
     = nat \<bar>sint (hashLoop 0 input)\<bar>"
  using toString16_length8[of "hashLoop 0 input"]
  by (simp add: generateHash_def Let_def substring_def hexValue_padding hexValue_toString16
        del: fold_replicate)

text \<open>
  Claim C6, as amended. \<open>commit\<close> is a function of the concatenation of its four
  inputs: two calls return the same digest exactly when the magnitudes of the signed
  32-bit hashes of the two concatenations agree. Identical inputs therefore give
  identical outputs, and changing one input changes the output unless the two magnitudes
  coincide.
\<close>

theorem commit_equal_iff:
  "commit r p t s = commit r' p' t' s' \<longleftrightarrow>
     \<bar>sint (hashLoop 0 (r @ p @ t @ s))\<bar> = \<bar>sint (hashLoop 0 (r' @ p' @ t' @ s'))\<bar>"
proof
  assume "commit r p t s = commit r' p' t' s'"
  then have "nat \<bar>sint (hashLoop 0 (r @ p @ t @ s))\<bar> = nat \<bar>sint (hashLoop 0 (r' @ p' @ t' @ s'))\<bar>"
    unfolding commit_def using hexValue_generateHash by metis
  then show "\<bar>sint (hashLoop 0 (r @ p @ t @ s))\<bar> = \<bar>sint (hashLoop 0 (r' @ p' @ t' @ s'))\<bar>"
    by simp
next
  assume "\<bar>sint (hashLoop 0 (r @ p @ t @ s))\<bar> = \<bar>sint (hashLoop 0 (r' @ p' @ t' @ s'))\<bar>"
  then show "commit r p t s = commit r' p' t' s'"
    by (simp add: commit_def generateHash_def)
qed

lemma hashLoop_append: "hashLoop h (a @ b) = hashLoop (hashLoop h a) b"
  by (induction a arbitrary: h) simp_all

text \<open>
  Claim C6 as stated fails: two receipt codes of the simple-token grammar that differ
  in their last two characters give the same commitment, the participant, the timestamp
  and the seed held fixed (\<open>31 * 65 + 80 = 31 * 66 + 49\<close>).
\<close>

theorem commit_collision:
  "js ''GRA-VAT-2024-AAAA-AAAA-AAAP'' \<noteq> js ''GRA-VAT-2024-AAAA-AAAA-AAB1''
   \<and> commit (js ''GRA-VAT-2024-AAAA-AAAA-AAAP'') (js ''0241234567'')
        (js ''2024-01-15T10:30:00.000Z'') (js ''k3j2h1g9f8d'')
     = commit (js ''GRA-VAT-2024-AAAA-AAAA-AAB1'') (js ''0241234567'')
        (js ''2024-01-15T10:30:00.000Z'') (js ''k3j2h1g9f8d'')"
proof -
  have "hashLoop 0 (js ''GRA-VAT-2024-AAAA-AAAA-AAAP'') = hashLoop 0 (js ''GRA-VAT-2024-AAAA-AAAA-AAB1'')"
    by (simp add: js_def)
  then show ?thesis
    by (simp add: commit_def generateHash_def hashLoop_append) (simp add: js_def)
qed

section \<open>The commitment is a digest of the four inputs\<close>

lemma polynomial31_Cons:
  "polynomial31 (c # cs) = ucast c * 31 ^ length cs + polynomial31 cs"
proof -
  have upt: "[0 ..< length (c # cs)] = 0 # map Suc [0 ..< length cs]"
    by (simp add: upt_conv_Cons map_Suc_upt del: upt_Suc)
  show ?thesis
    unfolding polynomial31_def upt by (simp add: o_def)
qed

lemma hashLoop_polynomial31:
  "hashLoop h s = h * 31 ^ length s + polynomial31 s"
proof (induction s arbitrary: h)
  case Nil
  show ?case by (simp add: polynomial31_def)
next
  case (Cons c cs)
  have "push_bit 5 h - h = 31 * h"
    by (simp add: push_bit_eq_mult)
  then show ?case
    by (simp add: Cons.IH polynomial31_Cons algebra_simps)
qed

lemma generateHash_padded:
  "generateHash input =
     replicate (64 - length (toString16 (nat \<bar>sint (hashLoop 0 input)\<bar>))) 48
     @ toString16 (nat \<bar>sint (hashLoop 0 input)\<bar>)"
  using toString16_length8[of "hashLoop 0 input"]
  by (simp add: generateHash_def Let_def substring_def)

text \<open>
  Claim C7. For every receiptUniqueId, participantId, timestamp and randomSeed, \<open>commit\<close>
  returns a digest of fixed length (64 code units) that consists of hexadecimal digits
  only; the number these digits denote is the magnitude of the signed 32-bit value of
  the polynomial in 31 over the code units of the concatenation of the four inputs, in
  that order; and the digest is the hexadecimal form of that number, padded with zeros
  on the left.
\<close>

theorem commit_digest:
  "length (commit receiptUniqueId participantId timestamp randomSeed) = 64
   \<and> set (commit receiptUniqueId participantId timestamp randomSeed) \<subseteq> set (js ''0123456789abcdef'')
   \<and> hexValue (commit receiptUniqueId participantId timestamp randomSeed)
       = nat \<bar>sint (polynomial31 (receiptUniqueId @ participantId @ timestamp @ randomSeed))\<bar>
   \<and> commit receiptUniqueId participantId timestamp randomSeed
       = replicate
           (64 - length (toString16 (nat \<bar>sint (polynomial31
               (receiptUniqueId @ participantId @ timestamp @ randomSeed))\<bar>))) 48
         @ toString16 (nat \<bar>sint (polynomial31
               (receiptUniqueId @ participantId @ timestamp @ randomSeed))\<bar>)"
proof -
  let ?x = "receiptUniqueId @ participantId @ timestamp @ randomSeed"
  have h: "hashLoop 0 ?x = polynomial31 ?x"
    by (simp add: hashLoop_polynomial31)
  have c: "commit receiptUniqueId participantId timestamp randomSeed = generateHash ?x"
    by (simp add: commit_def)
  have "length (generateHash ?x) = 64"
    by (rule generateHash_length)
  moreover have "set (generateHash ?x) \<subseteq> set (js ''0123456789abcdef'')"
    by (rule generateHash_hex)
  moreover have "hexValue (generateHash ?x) = nat \<bar>sint (polynomial31 ?x)\<bar>"
    unfolding hexValue_def hexValue_generateHash h ..
  moreover have "generateHash ?x =
      replicate (64 - length (toString16 (nat \<bar>sint (polynomial31 ?x)\<bar>))) 48
      @ toString16 (nat \<bar>sint (polynomial31 ?x)\<bar>)"
    using generateHash_padded[of ?x] unfolding h .
  ultimately show ?thesis
    unfolding c by (intro conjI)
qed

text \<open>The digest of one receipt code, for comparison with the source.\<close>

lemma generateHash_example:
  "generateHash (js ''GRA-VAT-2024-AAAA-AAAA-AAAP'')
     = replicate 56 48 @ js ''2e140801''"
proof -
  have "hashLoop 0 (js ''GRA-VAT-2024-AAAA-AAAA-AAAP'') = 773064705"
    by (simp add: js_def)
  moreover have "toString16 773064705 = js ''2e140801''"
    by (simp add: toString16.simps digitChar_def js_def)
  ultimately show ?thesis
    by (simp add: generateHash_padded) (simp add: js_def)
qed

section \<open>Evaluating the patterns on literals\<close>

lemma times_numeral_Nil: "times P (numeral k) [] = None"
  by (simp add: numeral_eq_Suc)

lemma times_numeral_Cons:
  "times P (numeral k) (c # s) = (if P c then times P (pred_numeral k) s else None)"
  by (simp add: numeral_eq_Suc)

lemmas pattern_eval =
  QR_PATTERN_def isV1Format_def v1Pattern_def match_seq_def js_def is_digit_def
  is_upper_alnum_def is_upper_def times_numeral_Nil times_numeral_Cons
  isV2Format_def urlPattern_def urlPrefixes_def canonicalize_def

section \<open>The lookup of the duplicate check\<close>

text \<open>
  The scan history holds objects only, so looking a string up in it finds nothing,
  whatever the store and the string.
\<close>

lemma array_includes_getScanHistory: "\<not> array_includes (getScanHistory st) qrCode"
  by (simp add: array_includes_def getScanHistory_def list_ex_iff)

section \<open>The draw\<close>

lemma cumulativeShare_Cons_0: "cumulativeShare (x # t) 0 = snd x"
  by (simp add: cumulativeShare_def)

lemma cumulativeShare_Cons_Suc: "cumulativeShare (x # t) (Suc i) = snd x + cumulativeShare t i"
  by (simp add: cumulativeShare_def)

lemma prizeLoop_first_exceeding:
  "prizeLoop t c r =
     (case filter (\<lambda>i. r < real (c + cumulativeShare t i)) [0 ..< length t] of
        [] \<Rightarrow> None
      | i # others \<Rightarrow> Some (fst (t ! i)))"
proof (induction t arbitrary: c)
  case Nil
  then show ?case by simp
next
  case (Cons x t)
  obtain prize percentage where x: "x = (prize, percentage)" by (cases x)
  have upt: "[0 ..< length (x # t)] = 0 # map Suc [0 ..< length t]"
    by (simp add: upt_conv_Cons map_Suc_upt del: upt_Suc)
  show ?case
  proof (cases "r < real (c + percentage)")
    case True
    then show ?thesis
      unfolding upt by (simp add: x cumulativeShare_Cons_0)
  next
    case False
    have "filter (\<lambda>i. r < real (c + cumulativeShare (x # t) i)) (map Suc [0 ..< length t])
          = map Suc (filter (\<lambda>i. r < real (c + percentage + cumulativeShare t i)) [0 ..< length t])"
      by (simp add: filter_map o_def cumulativeShare_Cons_Suc x add.assoc)
    with False show ?thesis
      unfolding upt
      by (simp add: x cumulativeShare_Cons_0 Cons.IH[of "c + percentage"] split: list.splits)
  qed
qed

lemma determinePrize_specTier: "determinePrize cfg r2 = specTier (PRIZES cfg) r2"
  by (simp add: determinePrize_def specTier_def prizeLoop_first_exceeding
           split: list.splits option.splits)

text \<open>
  Claim C5. For every pair of draw values \<open>r\<close> (\<open>draw\<close>) and \<open>r2\<close> (\<open>prize_draw\<close>), a
  scan that succeeds has outcome WIN if and only if \<open>r < winPercentage\<close>, and LOSE
  otherwise; on WIN the prize is the first tier, in the order of the prize table, whose
  cumulative share exceeds \<open>r2\<close>, and the first tier of the table when no cumulative
  share exceeds \<open>r2\<close>; on LOSE there is no prize.
\<close>

theorem draw_outcome:
  assumes "fst (submitScan cfg e st qrCode p) = Success res"
  shows "(r_result res = WIN \<longleftrightarrow> draw e < WIN_PERCENTAGE cfg)
       \<and> (r_result res = LOSE \<longleftrightarrow> \<not> draw e < WIN_PERCENTAGE cfg)
       \<and> r_prize res =
           (if draw e < WIN_PERCENTAGE cfg then specTier (PRIZES cfg) (prize_draw e) else None)"
  using assms
  by (auto simp: submitScan_def demoScan_def Let_def determinePrize_specTier split: if_splits)


text \<open>
  A winning scan under the configuration of config.js: \<open>r = 5\<close> is below the win
  percentage 10, and \<open>r2 = 80\<close> lies between the cumulative shares 70 and 95.
\<close>

theorem draw_outcome_witness:
  "\<exists>res. fst (submitScan CONFIG
                \<lparr> clock = \<lparr> iso = js ''2024-01-15T10:30:00.000Z'', millis = 1705314600000 \<rparr>,
                  now = 1705314600002, draw = 5, prize_draw = 80, seed = js ''k3j2h1g9f8d'' \<rparr>
                emptyStorage (js ''GRA-VAT-2024-AAAA-AAAA-AAAP'') (js ''0241234567'')) = Success res
         \<and> r_result res = WIN \<and> r_prize res = Some (cedi @ js ''10 Airtime'')"
proof -
  let ?e = "\<lparr> clock = \<lparr> iso = js ''2024-01-15T10:30:00.000Z'', millis = 1705314600000 \<rparr>,
              now = 1705314600002, draw = 5, prize_draw = 80, seed = js ''k3j2h1g9f8d'' \<rparr>"
  have qr: "QR_PATTERN (js ''GRA-VAT-2024-AAAA-AAAA-AAAP'')"
    by (simp add: pattern_eval)
  obtain res where res:
    "fst (submitScan CONFIG ?e emptyStorage (js ''GRA-VAT-2024-AAAA-AAAA-AAAP'') (js ''0241234567''))
       = Success res"
    using qr
    by (simp add: submitScan_def demoScan_def array_includes_getScanHistory getRecentScans_def
          emptyStorage_def CONFIG_def Let_def)
  have tier: "specTier (PRIZES CONFIG) 80 = Some (cedi @ js ''10 Airtime'')"
    by (simp add: specTier_def cumulativeShare_def CONFIG_def upt_rec)
  from draw_outcome[OF res] tier have "r_result res = WIN \<and> r_prize res = Some (cedi @ js ''10 Airtime'')"
    by (simp add: CONFIG_def)
  with res show ?thesis by blast
qed

section \<open>The scan transaction\<close>

text \<open>
  Claim C9. Whenever \<open>submitScan\<close> returns an error outcome (invalid receipt, duplicate
  receipt or rate limited), the store is left as it was: no entry is appended to the scan
  history, no leaderboard aggregate is updated and no audit-log entry is written.
\<close>

theorem failed_scan_leaves_store:
  assumes "fst (submitScan cfg e st qrCode p) = Failure err msg"
  shows "snd (submitScan cfg e st qrCode p) = st"
  using assms
  by (simp add: submitScan_def demoScan_def Let_def split: if_splits)


text \<open>
  A code with lower-case letters in its last block is refused and leaves the store empty.
\<close>

theorem failed_scan_leaves_store_witness:
  "fst (submitScan CONFIG
          \<lparr> clock = \<lparr> iso = js ''2024-01-15T10:30:00.000Z'', millis = 1705314600000 \<rparr>,
            now = 1705314600002, draw = 5, prize_draw = 80, seed = js ''k3j2h1g9f8d'' \<rparr>
          emptyStorage (js ''GRA-VAT-2024-AAAA-AAAA-aaap'') (js ''0241234567''))
     = Failure InvalidQRCodeFormat
         (js ''This doesn'' @ apostrophe @ js ''t look like a valid GRA VAT receipt QR code.'')
   \<and> snd (submitScan CONFIG
          \<lparr> clock = \<lparr> iso = js ''2024-01-15T10:30:00.000Z'', millis = 1705314600000 \<rparr>,
            now = 1705314600002, draw = 5, prize_draw = 80, seed = js ''k3j2h1g9f8d'' \<rparr>
          emptyStorage (js ''GRA-VAT-2024-AAAA-AAAA-aaap'') (js ''0241234567'')) = emptyStorage"
proof -
  have "\<not> QR_PATTERN (js ''GRA-VAT-2024-AAAA-AAAA-aaap'')"
    by (simp add: pattern_eval)
  then have failure:
    "fst (submitScan CONFIG
          \<lparr> clock = \<lparr> iso = js ''2024-01-15T10:30:00.000Z'', millis = 1705314600000 \<rparr>,
            now = 1705314600002, draw = 5, prize_draw = 80, seed = js ''k3j2h1g9f8d'' \<rparr>
          emptyStorage (js ''GRA-VAT-2024-AAAA-AAAA-aaap'') (js ''0241234567''))
     = Failure InvalidQRCodeFormat
         (js ''This doesn'' @ apostrophe @ js ''t look like a valid GRA VAT receipt QR code.'')"
    by (simp add: submitScan_def demoScan_def)
  from failure failed_scan_leaves_store[OF failure] show ?thesis by (rule conjI)
qed

lemma toString10_10: "toString10 10 = js ''10''"
  by (simp add: toString10.simps digitChar_def js_def)

lemma rate_limited_if:
  assumes "QR_PATTERN qrCode" and "MAX_SCANS_PER_HOUR cfg \<le> getRecentScans e st p"
  shows "fst (submitScan cfg e st qrCode p)
         = Failure RateLimited
             (js ''You'' @ apostrophe @ js ''ve reached the limit of ''
              @ toString10 (MAX_SCANS_PER_HOUR cfg) @ js '' scans per hour. Try again later!'')"
  using assms by (simp add: submitScan_def demoScan_def array_includes_getScanHistory)

lemma success_if:
  assumes "QR_PATTERN qrCode" and "getRecentScans e st p < MAX_SCANS_PER_HOUR cfg"
  shows "\<exists>res. fst (submitScan cfg e st qrCode p) = Success res"
  using assms by (simp add: submitScan_def demoScan_def array_includes_getScanHistory Let_def)

text \<open>
  Claim C8. With the per-hour maximum configured to 10 and a receipt code of the accepted
  format: the attempt of a participant whose 10 prior scans all have timestamps within the
  trailing 60 minutes fails with the rate-limit error, whose message states the limit;
  and an attempt made when fewer than 10 of the participant's scans fall inside the
  trailing 60 minutes is not rate-limited: it succeeds.
\<close>

theorem rate_limit:
  assumes "MAX_SCANS_PER_HOUR cfg = 10" and "QR_PATTERN qrCode"
  shows "(length (filter (\<lambda>s. h_phone s = p) (scan_history st)) = 10
          \<and> list_all (\<lambda>s. h_phone s = p \<longrightarrow> now e - 60 * 60 * 1000 < millis (h_timestamp s))
                (scan_history st)
          \<longrightarrow> fst (submitScan cfg e st qrCode p)
              = Failure RateLimited
                  (js ''You'' @ apostrophe
                   @ js ''ve reached the limit of 10 scans per hour. Try again later!''))
       \<and> (length (filter (\<lambda>s. h_phone s = p \<and> now e - 60 * 60 * 1000 < millis (h_timestamp s))
                    (scan_history st)) < 10
          \<longrightarrow> (\<exists>res. fst (submitScan cfg e st qrCode p) = Success res))"
proof (intro conjI impI)
  assume prior: "length (filter (\<lambda>s. h_phone s = p) (scan_history st)) = 10
      \<and> list_all (\<lambda>s. h_phone s = p \<longrightarrow> now e - 60 * 60 * 1000 < millis (h_timestamp s))
            (scan_history st)"
  then have "filter (\<lambda>s. h_phone s = p \<and> now e - 60 * 60 * 1000 < millis (h_timestamp s))
                 (scan_history st)
             = filter (\<lambda>s. h_phone s = p) (scan_history st)"
    by (intro filter_cong) (auto simp: list_all_iff)
  with prior have "getRecentScans e st p = 10"
    by (simp add: getRecentScans_def)
  with assms have "fst (submitScan cfg e st qrCode p)
         = Failure RateLimited
             (js ''You'' @ apostrophe @ js ''ve reached the limit of ''
              @ toString10 10 @ js '' scans per hour. Try again later!'')"
    using rate_limited_if[of qrCode cfg e st p] by simp
  then show "fst (submitScan cfg e st qrCode p)
              = Failure RateLimited
                  (js ''You'' @ apostrophe
                   @ js ''ve reached the limit of 10 scans per hour. Try again later!'')"
    by (simp add: toString10_10 js_def)
next
  assume "length (filter (\<lambda>s. h_phone s = p \<and> now e - 60 * 60 * 1000 < millis (h_timestamp s))
                    (scan_history st)) < 10"
  then have "getRecentScans e st p < MAX_SCANS_PER_HOUR cfg"
    using assms(1) by (simp add: getRecentScans_def)
  with assms(2) show "\<exists>res. fst (submitScan cfg e st qrCode p) = Success res"
    by (rule success_if)
qed


text \<open>
  Ten scans of one participant, one a minute from 10:10 to 10:19: the eleventh attempt at
  11:00 is rate-limited, and the attempt at 11:10:00.001, when the scan of 10:10 has left
  the window, succeeds.
\<close>

theorem rate_limit_witness:
  "fst (submitScan CONFIG
          \<lparr> clock = \<lparr> iso = js ''2024-01-15T11:00:00.000Z'', millis = 1705316400000 \<rparr>,
            now = 1705316400000, draw = 50, prize_draw = 80, seed = js ''k3j2h1g9f8d'' \<rparr>
          \<lparr> scan_history =
              map (\<lambda>k. \<lparr> h_qrCode = js ''GRA-VAT-2024-AAAA-AAAA-000'' @ [48 + of_nat k],
                         h_phone = js ''0241234567'',
                         h_timestamp = \<lparr> iso = js ''2024-01-15T10:1'' @ [48 + of_nat k] @ js '':00.000Z'',
                                         millis = 1705313400000 + 60000 * int k \<rparr>,
                         h_result = LOSE, h_prize = None \<rparr>) [0 ..< 10],
            scanned_codes = map (\<lambda>k. js ''GRA-VAT-2024-AAAA-AAAA-000'' @ [48 + of_nat k]) [0 ..< 10],
            audit_log = [],
            leaderboard = [\<lparr> lb_phone = js ''0241234567'', lb_scans = 10, lb_wins = 0 \<rparr>] \<rparr>
          (js ''GRA-VAT-2024-AAAA-AAAA-0010'') (js ''0241234567''))
     = Failure RateLimited
         (js ''You'' @ apostrophe @ js ''ve reached the limit of 10 scans per hour. Try again later!'')
   \<and> (\<exists>res. fst (submitScan CONFIG
          \<lparr> clock = \<lparr> iso = js ''2024-01-15T11:10:00.001Z'', millis = 1705317000001 \<rparr>,
            now = 1705317000001, draw = 50, prize_draw = 80, seed = js ''k3j2h1g9f8d'' \<rparr>
          \<lparr> scan_history =
              map (\<lambda>k. \<lparr> h_qrCode = js ''GRA-VAT-2024-AAAA-AAAA-000'' @ [48 + of_nat k],
                         h_phone = js ''0241234567'',
                         h_timestamp = \<lparr> iso = js ''2024-01-15T10:1'' @ [48 + of_nat k] @ js '':00.000Z'',
                                         millis = 1705313400000 + 60000 * int k \<rparr>,
                         h_result = LOSE, h_prize = None \<rparr>) [0 ..< 10],
            scanned_codes = map (\<lambda>k. js ''GRA-VAT-2024-AAAA-AAAA-000'' @ [48 + of_nat k]) [0 ..< 10],
            audit_log = [],
            leaderboard = [\<lparr> lb_phone = js ''0241234567'', lb_scans = 10, lb_wins = 0 \<rparr>] \<rparr>
          (js ''GRA-VAT-2024-AAAA-AAAA-0010'') (js ''0241234567'')) = Success res)"
proof -
  let ?st = "\<lparr> scan_history =
              map (\<lambda>k. \<lparr> h_qrCode = js ''GRA-VAT-2024-AAAA-AAAA-000'' @ [48 + of_nat k],
                         h_phone = js ''0241234567'',
                         h_timestamp = \<lparr> iso = js ''2024-01-15T10:1'' @ [48 + of_nat k] @ js '':00.000Z'',
                                         millis = 1705313400000 + 60000 * int k \<rparr>,
                         h_result = LOSE, h_prize = None \<rparr>) [0 ..< 10],
            scanned_codes = map (\<lambda>k. js ''GRA-VAT-2024-AAAA-AAAA-000'' @ [48 + of_nat k]) [0 ..< 10],
            audit_log = [],
            leaderboard = [\<lparr> lb_phone = js ''0241234567'', lb_scans = 10, lb_wins = 0 \<rparr>] \<rparr>"
  let ?e1 = "\<lparr> clock = \<lparr> iso = js ''2024-01-15T11:00:00.000Z'', millis = 1705316400000 \<rparr>,
            now = 1705316400000, draw = 50, prize_draw = 80, seed = js ''k3j2h1g9f8d'' \<rparr>"
  let ?e2 = "\<lparr> clock = \<lparr> iso = js ''2024-01-15T11:10:00.001Z'', millis = 1705317000001 \<rparr>,
            now = 1705317000001, draw = 50, prize_draw = 80, seed = js ''k3j2h1g9f8d'' \<rparr>"
  have m: "MAX_SCANS_PER_HOUR CONFIG = 10"
    by (simp add: CONFIG_def)
  have q: "QR_PATTERN (js ''GRA-VAT-2024-AAAA-AAAA-0010'')"
    by (simp add: pattern_eval)
  have h1: "length (filter (\<lambda>s. h_phone s = js ''0241234567'') (scan_history ?st)) = 10
          \<and> list_all (\<lambda>s. h_phone s = js ''0241234567''
                           \<longrightarrow> now ?e1 - 60 * 60 * 1000 < millis (h_timestamp s))
                (scan_history ?st)"
    by (simp add: upt_rec)
  have h2: "length (filter (\<lambda>s. h_phone s = js ''0241234567''
                               \<and> now ?e2 - 60 * 60 * 1000 < millis (h_timestamp s))
                    (scan_history ?st)) < 10"
    by (simp add: upt_rec)
  from rate_limit[OF m q, where p = "js ''0241234567''" and st = ?st and e = ?e1] h1
  have r1: "fst (submitScan CONFIG ?e1 ?st (js ''GRA-VAT-2024-AAAA-AAAA-0010'') (js ''0241234567''))
     = Failure RateLimited
         (js ''You'' @ apostrophe @ js ''ve reached the limit of 10 scans per hour. Try again later!'')"
    by blast
  from rate_limit[OF m q, where p = "js ''0241234567''" and st = ?st and e = ?e2] h2
  have r2: "\<exists>res. fst (submitScan CONFIG ?e2 ?st (js ''GRA-VAT-2024-AAAA-AAAA-0010'') (js ''0241234567''))
     = Success res"
    by blast
  from r1 r2 show ?thesis by (rule conjI)
qed

section \<open>The format check of the scan\<close>

lemma v1Pattern_first: "v1Pattern s \<Longrightarrow> \<exists>rest. s = 71 # rest"
proof (cases s)
  case Nil
  assume "v1Pattern s"
  with Nil show ?thesis by (simp add: v1Pattern_def match_seq_def js_def)
next
  case (Cons c rest)
  assume v1: "v1Pattern s"
  have "c = 71"
  proof (rule ccontr)
    assume "c \<noteq> 71"
    then have "lit (js ''GRA-VAT-'') s = None" by (simp add: Cons js_def)
    with v1 show False by (simp add: v1Pattern_def match_seq_def)
  qed
  with Cons show ?thesis by simp
qed

lemma urlPattern_first: "urlPattern s \<Longrightarrow> \<exists>c rest. s = c # rest \<and> canonicalize c = 72"
  by (cases s) (auto simp: urlPattern_def urlPrefixes_def js_def canonicalize_def split: if_splits)

lemma isV2Format_not_isV1Format: "isV2Format s \<Longrightarrow> \<not> isV1Format s"
proof
  assume "isV2Format s" and "isV1Format s"
  then obtain c rest where "s = c # rest" "canonicalize c = 72" "c = 71"
    using urlPattern_first[of s] v1Pattern_first[of s]
    by (auto simp: isV2Format_def isV1Format_def)
  then show False by (simp add: canonicalize_def)
qed

lemma format_check_QR_PATTERN:
  "(\<exists>msg. fst (submitScan cfg e st qrCode p) = Failure InvalidQRCodeFormat msg) \<longleftrightarrow> \<not> QR_PATTERN qrCode"
  by (auto simp: submitScan_def demoScan_def Let_def split: if_splits)





section \<open>The duplicate check of the scan\<close>

lemma getRecentScans_le: "getRecentScans e st p \<le> length (scan_history st)"
  by (simp add: getRecentScans_def)

lemma history_after_success:
  assumes "QR_PATTERN qrCode" and "getRecentScans e st p < MAX_SCANS_PER_HOUR cfg"
  shows "map h_qrCode (scan_history (snd (submitScan cfg e st qrCode p)))
           = map h_qrCode (scan_history st) @ [qrCode]"
    and "scanned_codes (snd (submitScan cfg e st qrCode p)) = scanned_codes st @ [qrCode]"
  using assms
  by (simp_all add: submitScan_def demoScan_def array_includes_getScanHistory Let_def storeScan_def)

text \<open>
  Claim C1 fails on the code. The duplicate check of \<open>_demoScan\<close> looks the submitted
  string up in the scan history, whose elements are objects, so it never finds it: the
  same receipt code submitted twice by one participant succeeds twice, and the scan
  history then holds two entries for it.
\<close>

theorem duplicate_scan_accepted:
  "(\<exists>res. fst (submitScan CONFIG
          \<lparr> clock = \<lparr> iso = js ''2024-01-15T10:30:00.000Z'', millis = 1705314600000 \<rparr>,
            now = 1705314600002, draw = 5, prize_draw = 80, seed = js ''k3j2h1g9f8d'' \<rparr>
          emptyStorage (js ''GRA-VAT-2024-AAAA-AAAA-AAAP'') (js ''0241234567'')) = Success res)
   \<and> (\<exists>res. fst (submitScan CONFIG
          \<lparr> clock = \<lparr> iso = js ''2024-01-15T10:31:00.000Z'', millis = 1705314660000 \<rparr>,
            now = 1705314660002, draw = 7, prize_draw = 20, seed = js ''p0o9i8u7y6t'' \<rparr>
          (snd (submitScan CONFIG
          \<lparr> clock = \<lparr> iso = js ''2024-01-15T10:30:00.000Z'', millis = 1705314600000 \<rparr>,
            now = 1705314600002, draw = 5, prize_draw = 80, seed = js ''k3j2h1g9f8d'' \<rparr>
          emptyStorage (js ''GRA-VAT-2024-AAAA-AAAA-AAAP'') (js ''0241234567'')))
          (js ''GRA-VAT-2024-AAAA-AAAA-AAAP'') (js ''0241234567'')) = Success res)
   \<and> map h_qrCode (scan_history (snd (submitScan CONFIG
          \<lparr> clock = \<lparr> iso = js ''2024-01-15T10:31:00.000Z'', millis = 1705314660000 \<rparr>,
            now = 1705314660002, draw = 7, prize_draw = 20, seed = js ''p0o9i8u7y6t'' \<rparr>
          (snd (submitScan CONFIG
          \<lparr> clock = \<lparr> iso = js ''2024-01-15T10:30:00.000Z'', millis = 1705314600000 \<rparr>,
            now = 1705314600002, draw = 5, prize_draw = 80, seed = js ''k3j2h1g9f8d'' \<rparr>
          emptyStorage (js ''GRA-VAT-2024-AAAA-AAAA-AAAP'') (js ''0241234567'')))
          (js ''GRA-VAT-2024-AAAA-AAAA-AAAP'') (js ''0241234567''))))
       = [js ''GRA-VAT-2024-AAAA-AAAA-AAAP'', js ''GRA-VAT-2024-AAAA-AAAA-AAAP'']"
proof -
  let ?e1 = "\<lparr> clock = \<lparr> iso = js ''2024-01-15T10:30:00.000Z'', millis = 1705314600000 \<rparr>,
            now = 1705314600002, draw = 5, prize_draw = 80, seed = js ''k3j2h1g9f8d'' \<rparr>"
  let ?e2 = "\<lparr> clock = \<lparr> iso = js ''2024-01-15T10:31:00.000Z'', millis = 1705314660000 \<rparr>,
            now = 1705314660002, draw = 7, prize_draw = 20, seed = js ''p0o9i8u7y6t'' \<rparr>"
  let ?q = "js ''GRA-VAT-2024-AAAA-AAAA-AAAP''"
  let ?p = "js ''0241234567''"
  let ?st1 = "snd (submitScan CONFIG ?e1 emptyStorage ?q ?p)"
  have q: "QR_PATTERN ?q"
    by (simp add: pattern_eval)
  have r0: "getRecentScans ?e1 emptyStorage ?p < MAX_SCANS_PER_HOUR CONFIG"
    by (simp add: getRecentScans_def emptyStorage_def CONFIG_def)
  have h1: "map h_qrCode (scan_history ?st1) = [?q]"
    using history_after_success(1)[OF q r0] by (simp add: emptyStorage_def)
  then have "length (scan_history ?st1) = 1"
    by (metis length_map length_Cons list.size(3) One_nat_def)
  then have r1: "getRecentScans ?e2 ?st1 ?p < MAX_SCANS_PER_HOUR CONFIG"
    using getRecentScans_le[of ?e2 ?st1 ?p] by (simp add: CONFIG_def)
  have "map h_qrCode (scan_history (snd (submitScan CONFIG ?e2 ?st1 ?q ?p))) = [?q, ?q]"
    using history_after_success(1)[OF q r1] h1 by simp
  with success_if[OF q r0] success_if[OF q r1] show ?thesis by blast
qed

section \<open>The parser and the unique id\<close>

text \<open>
  Claim C3, as amended. For every input string: when \<open>parse\<close> returns a valid result,
  either the string is a simple token and \<open>getUniqueId\<close> returns the full token, or
  the string is of the URL variant and, its URL having been read, \<open>getUniqueId\<close>
  returns the value of the \<open>rcpt\<close> parameter if the query has one and null if it has
  none; when the string matches neither grammar, \<open>parse\<close> returns \<open>valid = false\<close> and
  \<open>getUniqueId\<close> returns null.
\<close>

theorem parse_uniqueId:
  "(valid (parse url s) \<longrightarrow>
      (isV1Format s \<and> getUniqueId (parse url s) = Inr (Some s))
      \<or> (isV2Format s
         \<and> (\<forall>params. url = Some params \<longrightarrow>
               getUniqueId (parse url s) = Inr (map_of params (js ''rcpt'')))))
   \<and> (\<not> isV2Format s \<and> \<not> isV1Format s \<longrightarrow>
        \<not> valid (parse url s) \<and> getUniqueId (parse url s) = Inr None)"
  by (simp add: parse_def getUniqueId_def parseV2URL_def)

text \<open>
  A signed URL with a receipt number, a simple token, and a token with a two-digit year
  that matches neither grammar.
\<close>

theorem parse_uniqueId_witness:
  "valid (parse (Some [(js ''sdc'', js ''12345678''), (js ''rcpt'', js ''AB12-CD34-EF567''),
                          (js ''data'', js ''x''), (js ''ts'', js ''20240115103000''), (js ''sig'', js ''y'')])
            (js ''https://evat.gra.gov.gh/verify?sdc=12345678&rcpt=AB12-CD34-EF567&data=x&ts=20240115103000&sig=y''))
   \<and> getUniqueId (parse (Some [(js ''sdc'', js ''12345678''), (js ''rcpt'', js ''AB12-CD34-EF567''),
                          (js ''data'', js ''x''), (js ''ts'', js ''20240115103000''), (js ''sig'', js ''y'')])
            (js ''https://evat.gra.gov.gh/verify?sdc=12345678&rcpt=AB12-CD34-EF567&data=x&ts=20240115103000&sig=y''))
       = Inr (Some (js ''AB12-CD34-EF567''))
   \<and> valid (parse (Some []) (js ''GRA-VAT-2024-AAAA-AAAA-AAAP''))
   \<and> getUniqueId (parse (Some []) (js ''GRA-VAT-2024-AAAA-AAAA-AAAP''))
       = Inr (Some (js ''GRA-VAT-2024-AAAA-AAAA-AAAP''))
   \<and> \<not> valid (parse None (js ''GRA-VAT-24-AAAA-AAAA-AAAP''))
   \<and> getUniqueId (parse None (js ''GRA-VAT-24-AAAA-AAAA-AAAP'')) = Inr None"
proof -
  let ?params = "[(js ''sdc'', js ''12345678''), (js ''rcpt'', js ''AB12-CD34-EF567''),
                          (js ''data'', js ''x''), (js ''ts'', js ''20240115103000''), (js ''sig'', js ''y'')]"
  let ?url = "(js ''https://evat.gra.gov.gh/verify?sdc=12345678&rcpt=AB12-CD34-EF567&data=x&ts=20240115103000&sig=y'')"
  have a1: "isV2Format ?url" by (simp add: pattern_eval)
  then have a2: "\<not> isV1Format ?url" by (rule isV2Format_not_isV1Format)
  have a3: "valid (parse (Some ?params) ?url)" using a1 by (simp add: parse_def)
  have a4: "map_of ?params (js ''rcpt'') = Some (js ''AB12-CD34-EF567'')" by (simp add: js_def)
  have b1: "isV1Format (js ''GRA-VAT-2024-AAAA-AAAA-AAAP'')" by (simp add: pattern_eval)
  have b2: "\<not> isV2Format (js ''GRA-VAT-2024-AAAA-AAAA-AAAP'')" by (simp add: pattern_eval)
  have b3: "valid (parse (Some []) (js ''GRA-VAT-2024-AAAA-AAAA-AAAP''))"
    using b1 by (simp add: parse_def)
  have c1: "\<not> isV2Format (js ''GRA-VAT-24-AAAA-AAAA-AAAP'')" by (simp add: pattern_eval)
  have c2: "\<not> isV1Format (js ''GRA-VAT-24-AAAA-AAAA-AAAP'')" by (simp add: pattern_eval)
  from parse_uniqueId[of "Some ?params" ?url] a2 a3 a4
  have "getUniqueId (parse (Some ?params) ?url) = Inr (Some (js ''AB12-CD34-EF567''))"
    by simp
  moreover from parse_uniqueId[of "Some []" "js ''GRA-VAT-2024-AAAA-AAAA-AAAP''"] b2 b3
  have "getUniqueId (parse (Some []) (js ''GRA-VAT-2024-AAAA-AAAA-AAAP''))
          = Inr (Some (js ''GRA-VAT-2024-AAAA-AAAA-AAAP''))"
    by simp
  moreover from parse_uniqueId[of None "js ''GRA-VAT-24-AAAA-AAAA-AAAP''"] c1 c2
  have "\<not> valid (parse None (js ''GRA-VAT-24-AAAA-AAAA-AAAP''))
        \<and> getUniqueId (parse None (js ''GRA-VAT-24-AAAA-AAAA-AAAP'')) = Inr None"
    by simp
  ultimately show ?thesis using a3 b3 by simp
qed

text \<open>
  Claim C3 as stated fails: a URL of the right scheme, host and path whose query has no
  \<open>rcpt\<close> parameter is valid, and \<open>getUniqueId\<close> returns null for it.
\<close>

theorem valid_url_without_rcpt:
  "valid (parse (Some [(js ''sdc'', js ''12345678'')]) (js ''https://evat.gra.gov.gh/verify?sdc=12345678''))
   \<and> getUniqueId (parse (Some [(js ''sdc'', js ''12345678'')])
                     (js ''https://evat.gra.gov.gh/verify?sdc=12345678'')) = Inr None"
proof -
  have "isV2Format (js ''https://evat.gra.gov.gh/verify?sdc=12345678'')"
    by (simp add: pattern_eval)
  moreover have "map_of [(js ''sdc'', js ''12345678'')] (js ''rcpt'') = None"
    by (simp add: js_def)
  ultimately show ?thesis
    by (simp add: parse_def getUniqueId_def parseV2URL_def)
qed

section \<open>Demo participants in the leaderboard\<close>

lemma set_addDemoUser:
  "set (addDemoUser u lb)
     = (if lb_phone u \<in> lb_phone ` set lb then set lb else insert u (set lb))"
  by (auto simp: addDemoUser_def find_None_iff image_iff; metis)

lemma length_addDemoUser: "length (addDemoUser u lb) \<le> Suc (length lb)"
  by (simp add: addDemoUser_def)

lemma fold_addDemoUser_subset: "set lb \<subseteq> set (fold addDemoUser us lb)"
proof (induction us arbitrary: lb)
  case Nil
  show ?case by simp
next
  case (Cons x xs)
  have "set lb \<subseteq> set (addDemoUser x lb)" by (auto simp: set_addDemoUser)
  also have "\<dots> \<subseteq> set (fold addDemoUser xs (addDemoUser x lb))" by (rule Cons.IH)
  finally show ?case by simp
qed

lemma fold_addDemoUser_phones:
  "u \<in> set us \<Longrightarrow> lb_phone u \<in> lb_phone ` set (fold addDemoUser us lb)"
proof (induction us arbitrary: lb)
  case Nil
  then show ?case by simp
next
  case (Cons x xs)
  show ?case
  proof (cases "u = x")
    case True
    have "lb_phone x \<in> lb_phone ` set (addDemoUser x lb)" by (auto simp: set_addDemoUser)
    then have "lb_phone x \<in> lb_phone ` set (fold addDemoUser xs (addDemoUser x lb))"
      using fold_addDemoUser_subset[of "addDemoUser x lb" xs] by blast
    with True show ?thesis by simp
  next
    case False
    with Cons.prems have "u \<in> set xs" by simp
    then show ?thesis using Cons.IH by simp
  qed
qed

lemma fold_addDemoUser_member:
  "u \<in> set us \<Longrightarrow> distinct (map lb_phone us) \<Longrightarrow> lb_phone u \<notin> lb_phone ` set lb
   \<Longrightarrow> u \<in> set (fold addDemoUser us lb)"
proof (induction us arbitrary: lb)
  case Nil
  then show ?case by simp
next
  case (Cons x xs)
  show ?case
  proof (cases "u = x")
    case True
    with Cons.prems(3) have "x \<in> set (addDemoUser x lb)" by (simp add: set_addDemoUser)
    then have "x \<in> set (fold addDemoUser xs (addDemoUser x lb))"
      using fold_addDemoUser_subset[of "addDemoUser x lb" xs] by blast
    with True show ?thesis by simp
  next
    case False
    with Cons.prems(1) have u: "u \<in> set xs" by simp
    with Cons.prems(2) have "lb_phone u \<noteq> lb_phone x" by (auto simp: image_iff)
    with Cons.prems(3) have "lb_phone u \<notin> lb_phone ` set (addDemoUser x lb)"
      by (auto simp: set_addDemoUser split: if_splits)
    with u Cons.prems(2) have "u \<in> set (fold addDemoUser xs (addDemoUser x lb))"
      by (intro Cons.IH) simp_all
    then show ?thesis by simp
  qed
qed

lemma length_fold_addDemoUser: "length (fold addDemoUser us lb) \<le> length lb + length us"
proof (induction us arbitrary: lb)
  case Nil
  show ?case by simp
next
  case (Cons x xs)
  have "length (fold addDemoUser xs (addDemoUser x lb)) \<le> length (addDemoUser x lb) + length xs"
    by (rule Cons.IH)
  with length_addDemoUser[of x lb] show ?case by simp
qed

lemma map_phone_update_first:
  "(\<And>x. lb_phone (f x) = lb_phone x) \<Longrightarrow> map lb_phone (update_first P f xs) = map lb_phone xs"
  by (induction xs) simp_all

lemma update_first_keeps: "u \<in> set xs \<Longrightarrow> \<not> P u \<Longrightarrow> u \<in> set (update_first P f xs)"
  by (induction xs) auto

lemma length_update_first: "length (update_first P f xs) = length xs"
  by (induction xs) simp_all

lemma rows_of_enumerate:
  "map (\<lambda>r. (phone r, scans r, wins r))
     (map (\<lambda>(index, user).
             \<lparr> rank = index + 1, phone_masked = maskPhone (lb_phone user),
               phone = lb_phone user, scans = lb_scans user, wins = lb_wins user,
               badge = getBadge (lb_scans user) \<rparr>) (enumerate n xs))
   = map (\<lambda>u. (lb_phone u, lb_scans u, lb_wins u)) xs"
  by (induction xs arbitrary: n) simp_all

lemma distinct_demoUsers: "distinct (map lb_phone demoUsers)"
  by (simp add: demoUsers_def js_def)


lemma distinct_addDemoUser:
  "distinct (map lb_phone lb) \<Longrightarrow> distinct (map lb_phone (addDemoUser u lb))"
  by (auto simp: addDemoUser_def find_None_iff image_iff)

lemma distinct_fold_addDemoUser:
  "distinct (map lb_phone lb) \<Longrightarrow> distinct (map lb_phone (fold addDemoUser us lb))"
  by (induction us arbitrary: lb) (simp_all add: distinct_addDemoUser)

lemma update_first_only:
  "distinct (map lb_phone xs) \<Longrightarrow> u \<in> set (update_first (\<lambda>u. lb_phone u = p) f xs)
   \<Longrightarrow> lb_phone u = p \<Longrightarrow> (\<And>x. lb_phone (f x) = lb_phone x) \<Longrightarrow> \<exists>x. u = f x"
proof (induction xs)
  case Nil
  then show ?case by simp
next
  case (Cons x xs)
  show ?case
  proof (cases "lb_phone x = p")
    case True
    with Cons.prems(2) have "u = f x \<or> u \<in> set xs" by simp
    moreover from True Cons.prems(1) have "p \<notin> lb_phone ` set xs" by simp
    ultimately show ?thesis using Cons.prems(3) by auto
  next
    case False
    with Cons.prems(2) have "u = x \<or> u \<in> set (update_first (\<lambda>u. lb_phone u = p) f xs)"
      by simp
    with False Cons.prems(3) have "u \<in> set (update_first (\<lambda>u. lb_phone u = p) f xs)"
      by auto
    with Cons.prems show ?thesis by (intro Cons.IH) simp_all
  qed
qed





end
